theory Spec2Isabelle
  imports Complex_Main
begin

section \<open>The CoP support region of crocoddyl (cop-support.hxx)\<close>

text \<open>
  The class template \<open>CoPSupportTpl<Scalar>\<close> stores a rotation \<open>R_\<close>, a surface normal
  \<open>nsurf_\<close>, a box \<open>box_\<close> and the inequality data \<open>A_\<close>, \<open>ub_\<close>, \<open>lb_\<close> derived from
  them by \<open>update()\<close>.

  The embedding reads \<open>Scalar\<close> as the exact reals. Four things the source takes from
  outside the file are parameters of the functions that use them:
  \<^item> \<open>smax\<close>, the value of \<open>std::numeric_limits<Scalar>::max()\<close>;
  \<^item> \<open>smin\<close>, the smallest positive normal \<open>Scalar\<close>, \<open>std::numeric_limits<Scalar>::min()\<close>;
  \<^item> \<open>prec\<close>, the default precision of Eigen's \<open>isUnitary\<close>
    (\<open>NumTraits<Scalar>::dummy_precision()\<close>);
  \<^item> \<open>q2R\<close>, the map \<open>\<lambda>a b. Quaternions::FromTwoVectors(a, b).toRotationMatrix()\<close>.
  Rounding is not modelled. The one place where the floating-point code leaves the
  exact reals by more than rounding is the division by \<open>norm()\<close> in \<open>set_nsurf\<close>: a zero
  norm is the explicit result \<open>NonFinite\<close>, and a squared norm that underflows or
  overflows is the explicit result \<open>OutOfRange\<close>.
\<close>

subsection \<open>Fixed-size vectors and matrices\<close>

type_synonym Vector2s = "real \<times> real"
type_synonym Vector3s = "real \<times> real \<times> real"
type_synonym Vector4s = "real \<times> real \<times> real \<times> real"
type_synonym Vector6s = "real \<times> real \<times> real \<times> real \<times> real \<times> real"

text \<open>Matrices are tuples of their rows.\<close>

type_synonym Matrix3s = "Vector3s \<times> Vector3s \<times> Vector3s"
type_synonym Matrix46s = "Vector6s \<times> Vector6s \<times> Vector6s \<times> Vector6s"

text \<open>\<open>Matrix3s::Identity()\<close> and \<open>Vector3s::UnitZ()\<close>.\<close>

definition Identity :: Matrix3s where
  "Identity = ((1, 0, 0), (0, 1, 0), (0, 0, 1))"

definition UnitZ :: Vector3s where
  "UnitZ = (0, 0, 1)"

text \<open>What \<open>setZero()\<close> leaves in \<open>A_\<close>, \<open>ub_\<close> and \<open>lb_\<close>, and \<open>setOnes()\<close> in \<open>lb_\<close>.\<close>

definition Zero46 :: Matrix46s where
  "Zero46 = ((0, 0, 0, 0, 0, 0), (0, 0, 0, 0, 0, 0), (0, 0, 0, 0, 0, 0), (0, 0, 0, 0, 0, 0))"

definition Zero4 :: Vector4s where
  "Zero4 = (0, 0, 0, 0)"

definition Ones4 :: Vector4s where
  "Ones4 = (1, 1, 1, 1)"

text \<open>\<open>R.col(j)\<close> for the three columns the source reads, and \<open>R.transpose()\<close>.\<close>

fun col :: "Matrix3s \<Rightarrow> nat \<Rightarrow> Vector3s" where
  "col ((a0, a1, a2), (b0, b1, b2), (c0, c1, c2)) j =
     (if j = 0 then (a0, b0, c0) else if j = 1 then (a1, b1, c1) else (a2, b2, c2))"

fun transpose3 :: "Matrix3s \<Rightarrow> Matrix3s" where
  "transpose3 ((a0, a1, a2), (b0, b1, b2), (c0, c1, c2)) =
     ((a0, b0, c0), (a1, b1, c1), (a2, b2, c2))"

fun dot3 :: "Vector3s \<Rightarrow> Vector3s \<Rightarrow> real" where
  "dot3 (x0, x1, x2) (y0, y1, y2) = x0 * y0 + x1 * y1 + x2 * y2"

text \<open>The product of a matrix and a column vector.\<close>

fun mat_vec3 :: "Matrix3s \<Rightarrow> Vector3s \<Rightarrow> Vector3s" where
  "mat_vec3 (r0, r1, r2) v = (dot3 r0 v, dot3 r1 v, dot3 r2 v)"

text \<open>Scaling (\<open>-W * v\<close>), negation (\<open>-v\<close>) and division by a scalar (\<open>v /= c\<close>).\<close>

fun scale3 :: "real \<Rightarrow> Vector3s \<Rightarrow> Vector3s" where
  "scale3 c (x0, x1, x2) = (c * x0, c * x1, c * x2)"

fun neg3 :: "Vector3s \<Rightarrow> Vector3s" where
  "neg3 (x0, x1, x2) = (- x0, - x1, - x2)"

fun div3 :: "Vector3s \<Rightarrow> real \<Rightarrow> Vector3s" where
  "div3 (x0, x1, x2) c = (x0 / c, x1 / c, x2 / c)"

fun scale4 :: "real \<Rightarrow> Vector4s \<Rightarrow> Vector4s" where
  "scale4 c (x0, x1, x2, x3) = (c * x0, c * x1, c * x2, c * x3)"

text \<open>
  The comma initialiser \<open>A_.row(i) << u, v\<close> fills a row of six with two blocks of
  three.
\<close>

fun comma_row :: "Vector3s \<Rightarrow> Vector3s \<Rightarrow> Vector6s" where
  "comma_row (x0, x1, x2) (y0, y1, y2) = (x0, x1, x2, y0, y1, y2)"

text \<open>
  Eigen's \<open>squaredNorm()\<close>, \<open>norm()\<close> and \<open>isUnitary(prec)\<close> on a vector. For one column
  \<open>isUnitary\<close> is the fuzzy comparison \<open>isApprox(squaredNorm, 1, prec)\<close>, that is
  \<open>|a - b| \<le> min(|a|, |b|) * prec\<close>.
\<close>

definition squaredNorm :: "Vector3s \<Rightarrow> real" where
  "squaredNorm v = dot3 v v"

definition norm3 :: "Vector3s \<Rightarrow> real" where
  "norm3 v = sqrt (squaredNorm v)"

definition isUnitary :: "real \<Rightarrow> Vector3s \<Rightarrow> bool" where
  "isUnitary prec v \<longleftrightarrow> \<bar>squaredNorm v - 1\<bar> \<le> min \<bar>squaredNorm v\<bar> \<bar>1\<bar> * prec"

subsection \<open>The object and its constructors\<close>

text \<open>The fields are named after their accessors \<open>get_A\<close>, ..., \<open>get_box\<close>.\<close>

record CoPSupportTpl =
  get_A :: Matrix46s
  get_ub :: Vector4s
  get_lb :: Vector4s
  get_R :: Matrix3s
  get_nsurf :: Vector3s
  get_box :: Vector2s

text \<open>
  \<open>update()\<close>: zero \<open>A_\<close> and \<open>ub_\<close>, set \<open>lb_\<close> to ones times \<open>-max\<close>, then write the four
  rows from \<open>L = box_(0) / 2\<close>, \<open>W = box_(1) / 2\<close> and the columns of \<open>R_\<close>.
\<close>

definition update :: "real \<Rightarrow> CoPSupportTpl \<Rightarrow> CoPSupportTpl" where
  "update smax s =
     (let L = fst (get_box s) / 2;
          W = snd (get_box s) / 2;
          R = get_R s
      in s\<lparr>get_A :=
             (comma_row (scale3 (- W) (col R 2)) (col R 0),
              comma_row (scale3 (- W) (col R 2)) (neg3 (col R 0)),
              comma_row (scale3 (- L) (col R 2)) (col R 1),
              comma_row (scale3 (- L) (col R 2)) (neg3 (col R 1))),
           get_ub := Zero4,
           get_lb := scale4 (- smax) Ones4\<rparr>)"

text \<open>The default constructor.\<close>

definition CoPSupportTpl_default :: "real \<Rightarrow> CoPSupportTpl" where
  "CoPSupportTpl_default smax =
     update smax
       \<lparr>get_A = Zero46, get_ub = Zero4, get_lb = Zero4,
        get_R = Identity, get_nsurf = UnitZ, get_box = (smax, smax)\<rparr>"

text \<open>\<open>CoPSupportTpl(R, box)\<close>.\<close>

definition CoPSupportTpl_R :: "real \<Rightarrow> Matrix3s \<Rightarrow> Vector2s \<Rightarrow> CoPSupportTpl" where
  "CoPSupportTpl_R smax R box =
     update smax
       \<lparr>get_A = Zero46, get_ub = Zero4, get_lb = Zero4,
        get_R = R, get_nsurf = mat_vec3 (transpose3 R) UnitZ, get_box = box\<rparr>"

text \<open>\<open>CoPSupportTpl(nsurf, box)\<close>.\<close>

definition CoPSupportTpl_nsurf ::
  "real \<Rightarrow> (Vector3s \<Rightarrow> Vector3s \<Rightarrow> Matrix3s) \<Rightarrow> Vector3s \<Rightarrow> Vector2s \<Rightarrow> CoPSupportTpl" where
  "CoPSupportTpl_nsurf smax q2R nsurf box =
     update smax
       \<lparr>get_A = Zero46, get_ub = Zero4, get_lb = Zero4,
        get_R = q2R nsurf UnitZ, get_nsurf = nsurf, get_box = box\<rparr>"







subsection \<open>The mutators\<close>

text \<open>\<open>set_R\<close> writes \<open>R_\<close> and \<open>nsurf_\<close> and nothing else.\<close>

definition set_R :: "Matrix3s \<Rightarrow> CoPSupportTpl \<Rightarrow> CoPSupportTpl" where
  "set_R R s = s\<lparr>get_R := R, get_nsurf := mat_vec3 (transpose3 R) UnitZ\<rparr>"

text \<open>
  The lines a mutator writes to \<open>std::cerr\<close> are returned beside the new state.
\<close>

definition warn_normal :: string where
  "warn_normal = ''Warning: normal is not an unitary vector, then we normalized it''"

definition warn_box :: string where
  "warn_box = ''Warning: box(0) has to be a positive value, set to max. float''"

text \<open>
  \<open>set_box\<close> stores the box, then replaces a negative first component, then a
  negative second component; both branches print the same line.
\<close>

definition set_box :: "real \<Rightarrow> Vector2s \<Rightarrow> CoPSupportTpl \<Rightarrow> CoPSupportTpl \<times> string list" where
  "set_box smax box s =
     (let s1 = s\<lparr>get_box := box\<rparr>;
          (s2, out2) =
            (if fst (get_box s1) < 0
             then (s1\<lparr>get_box := (smax, snd (get_box s1))\<rparr>, [warn_box])
             else (s1, []));
          (s3, out3) =
            (if snd (get_box s2) < 0
             then (s2\<lparr>get_box := (fst (get_box s2), smax)\<rparr>, out2 @ [warn_box])
             else (s2, out2))
      in (s3, out3))"

text \<open>
  \<open>set_nsurf\<close> stores the normal, divides it by the norm of the argument when
  \<open>isUnitary\<close> rejects the argument, and sets \<open>R_\<close> from the stored normal.

  The norm is \<open>sqrt(squaredNorm())\<close>, computed in \<open>Scalar\<close>. The quotient is the exact one,
  up to rounding, only while the squared norm is a normal \<open>Scalar\<close>:
  \<^item> for a zero norm the division gives NaN and Inf: the result \<open>NonFinite\<close>;
  \<^item> a squared norm below \<open>smin\<close> is computed as zero or as a subnormal number without
    precision, and a squared norm above \<open>smax\<close> as Inf, whose quotients are zero: the
    result \<open>OutOfRange\<close>.
  Both results say that the exact reals do not describe what is stored.
\<close>

datatype 'a fp = Ok 'a | NonFinite | OutOfRange

definition set_nsurf ::
  "real \<Rightarrow> real \<Rightarrow> real \<Rightarrow> (Vector3s \<Rightarrow> Vector3s \<Rightarrow> Matrix3s) \<Rightarrow> Vector3s \<Rightarrow> CoPSupportTpl
     \<Rightarrow> (CoPSupportTpl \<times> string list) fp" where
  "set_nsurf smin smax prec q2R nsurf s =
     (let s1 = s\<lparr>get_nsurf := nsurf\<rparr> in
      if \<not> isUnitary prec nsurf then
        (if norm3 nsurf = 0 then NonFinite
         else if squaredNorm nsurf < smin \<or> smax < squaredNorm nsurf then OutOfRange
         else
           (let s2 = s1\<lparr>get_nsurf := div3 (get_nsurf s1) (norm3 nsurf)\<rparr>
            in Ok (s2\<lparr>get_R := q2R (get_nsurf s2) UnitZ\<rparr>, [warn_normal])))
      else Ok (s1\<lparr>get_R := q2R (get_nsurf s1) UnitZ\<rparr>, []))"

subsection \<open>Instances of the parameters for double precision\<close>

text \<open>
  \<open>std::numeric_limits<double>::max()\<close> is \<open>(2 - 2^-52) * 2^1023\<close>,
  \<open>std::numeric_limits<double>::min()\<close> is \<open>2^-1022\<close>, and Eigen's
  \<open>NumTraits<double>::dummy_precision()\<close> is \<open>1e-12\<close>.
\<close>

definition DBL_MAX :: real where
  "DBL_MAX = (2 ^ 53 - 1) * 2 ^ 971"

definition DBL_MIN :: real where
  "DBL_MIN = 1 / 2 ^ 1022"

definition DBL_dummy_precision :: real where
  "DBL_dummy_precision = 1 / 10 ^ 12"

text \<open>
  The shortest-arc rotation between two vectors that point the same way is the
  identity; this is the value of \<open>q2R a UnitZ\<close> for \<open>a\<close> a positive multiple of \<open>UnitZ\<close>.
\<close>

definition q2R_parallel :: "Vector3s \<Rightarrow> Vector3s \<Rightarrow> Matrix3s" where
  "q2R_parallel a b = Identity"


subsection \<open>Notions the properties are stated with\<close>

text \<open>
  The derived fields are up to date when \<open>update()\<close> would not change them.
\<close>

definition up_to_date :: "real \<Rightarrow> CoPSupportTpl \<Rightarrow> bool" where
  "up_to_date smax s \<longleftrightarrow>
     get_A s = get_A (update smax s) \<and> get_ub s = get_ub (update smax s)
     \<and> get_lb s = get_lb (update smax s)"


text \<open>
  A wrench is six numbers, force first. It is within the bounds of a descriptor when
  \<open>lb \<le> A w \<le> ub\<close> holds in each of the four rows.
\<close>

fun dot6 :: "Vector6s \<Rightarrow> Vector6s \<Rightarrow> real" where
  "dot6 (x0, x1, x2, x3, x4, x5) (y0, y1, y2, y3, y4, y5) =
     x0 * y0 + x1 * y1 + x2 * y2 + x3 * y3 + x4 * y4 + x5 * y5"

fun mat_vec46 :: "Matrix46s \<Rightarrow> Vector6s \<Rightarrow> Vector4s" where
  "mat_vec46 (r0, r1, r2, r3) w = (dot6 r0 w, dot6 r1 w, dot6 r2 w, dot6 r3 w)"

fun le4 :: "Vector4s \<Rightarrow> Vector4s \<Rightarrow> bool" where
  "le4 (x0, x1, x2, x3) (y0, y1, y2, y3) \<longleftrightarrow> x0 \<le> y0 \<and> x1 \<le> y1 \<and> x2 \<le> y2 \<and> x3 \<le> y3"

definition below_upper :: "CoPSupportTpl \<Rightarrow> Vector6s \<Rightarrow> bool" where
  "below_upper s w \<longleftrightarrow> le4 (mat_vec46 (get_A s) w) (get_ub s)"

definition within_bounds :: "CoPSupportTpl \<Rightarrow> Vector6s \<Rightarrow> bool" where
  "within_bounds s w \<longleftrightarrow> le4 (get_lb s) (mat_vec46 (get_A s) w) \<and> below_upper s w"

text \<open>The entries of a matrix, row by row.\<close>

fun entries3 :: "Matrix3s \<Rightarrow> real list" where
  "entries3 ((a0, a1, a2), (b0, b1, b2), (c0, c1, c2)) = [a0, a1, a2, b0, b1, b2, c0, c1, c2]"

fun entries6 :: "Vector6s \<Rightarrow> real list" where
  "entries6 (x0, x1, x2, x3, x4, x5) = [x0, x1, x2, x3, x4, x5]"

fun entries46 :: "Matrix46s \<Rightarrow> real list" where
  "entries46 (r0, r1, r2, r3) = entries6 r0 @ entries6 r1 @ entries6 r2 @ entries6 r3"

text \<open>
  A proper rotation in the words of the specification: orthonormal, with determinant
  one.
\<close>

fun row :: "Matrix3s \<Rightarrow> nat \<Rightarrow> Vector3s" where
  "row (r0, r1, r2) i = (if i = 0 then r0 else if i = 1 then r1 else r2)"

definition mat_mul3 :: "Matrix3s \<Rightarrow> Matrix3s \<Rightarrow> Matrix3s" where
  "mat_mul3 M N =
     ((dot3 (row M 0) (col N 0), dot3 (row M 0) (col N 1), dot3 (row M 0) (col N 2)),
      (dot3 (row M 1) (col N 0), dot3 (row M 1) (col N 1), dot3 (row M 1) (col N 2)),
      (dot3 (row M 2) (col N 0), dot3 (row M 2) (col N 1), dot3 (row M 2) (col N 2)))"

fun det3 :: "Matrix3s \<Rightarrow> real" where
  "det3 ((a0, a1, a2), (b0, b1, b2), (c0, c1, c2)) =
     a0 * (b1 * c2 - b2 * c1) - a1 * (b0 * c2 - b2 * c0) + a2 * (b0 * c1 - b1 * c0)"

definition proper_rotation :: "Matrix3s \<Rightarrow> bool" where
  "proper_rotation M \<longleftrightarrow> mat_mul3 (transpose3 M) M = Identity \<and> det3 M = 1"










text \<open>
  Two rotations by a quarter turn, about the first and about the third axis, and the
  scaling by two, which is no rotation.
\<close>

definition quarter_turn_x :: Matrix3s where
  "quarter_turn_x = ((1, 0, 0), (0, 0, - 1), (0, 1, 0))"

definition quarter_turn_z :: Matrix3s where
  "quarter_turn_z = ((0, - 1, 0), (1, 0, 0), (0, 0, 1))"

definition twice_identity :: Matrix3s where
  "twice_identity = ((2, 0, 0), (0, 2, 0), (0, 0, 2))"

section \<open>Properties\<close>

subsection \<open>Evaluation of the definitions\<close>

lemmas eigen_defs = Identity_def UnitZ_def Zero46_def Zero4_def Ones4_def

lemmas ctor_defs =
  CoPSupportTpl_default_def CoPSupportTpl_R_def CoPSupportTpl_nsurf_def update_def Let_def

subsection \<open>Construction\<close>

text \<open>
  C8: constructing from the identity orientation and the box \<open>(0.2, 0.1)\<close> gives the rows
  \<open>[0,0,-0.05, 1,0,0]\<close>, \<open>[0,0,-0.05,-1,0,0]\<close>, \<open>[0,0,-0.1, 0,1,0]\<close>, \<open>[0,0,-0.1, 0,-1,0]\<close>,
  the upper bounds \<open>0\<close> and the lower bounds \<open>-max\<close>.
\<close>

theorem identity_box_scenario:
  "get_A (CoPSupportTpl_R smax Identity (0.2, 0.1)) =
     ((0, 0, - 0.05, 1, 0, 0),
      (0, 0, - 0.05, - 1, 0, 0),
      (0, 0, - 0.1, 0, 1, 0),
      (0, 0, - 0.1, 0, - 1, 0))
   \<and> get_ub (CoPSupportTpl_R smax Identity (0.2, 0.1)) = (0, 0, 0, 0)
   \<and> get_lb (CoPSupportTpl_R smax Identity (0.2, 0.1)) = (- smax, - smax, - smax, - smax)"
  by (simp add: ctor_defs eigen_defs)














text \<open>
  C6, as the code has it: the default constructor gives the identity orientation, the
  normal \<open>UnitZ\<close> and the box \<open>(max, max)\<close>; the matrix is not zero: each row holds
  \<open>-max/2\<close> on the normal force and \<open>\<plusminus>1\<close> on one moment; the upper bounds are \<open>0\<close> and the
  lower bounds \<open>-max\<close>.
\<close>

theorem default_constructor:
  "get_R (CoPSupportTpl_default smax) = Identity
   \<and> get_nsurf (CoPSupportTpl_default smax) = UnitZ
   \<and> get_box (CoPSupportTpl_default smax) = (smax, smax)
   \<and> get_A (CoPSupportTpl_default smax) =
       ((0, 0, - (smax / 2), 1, 0, 0),
        (0, 0, - (smax / 2), - 1, 0, 0),
        (0, 0, - (smax / 2), 0, 1, 0),
        (0, 0, - (smax / 2), 0, - 1, 0))
   \<and> get_ub (CoPSupportTpl_default smax) = (0, 0, 0, 0)
   \<and> get_lb (CoPSupportTpl_default smax) = (- smax, - smax, - smax, - smax)"
  by (simp add: ctor_defs eigen_defs)

text \<open>
  C6 as stated fails: the matrix of the default descriptor is not the zero matrix.
\<close>

theorem default_matrix_not_zero:
  "get_A (CoPSupportTpl_default DBL_MAX) \<noteq> Zero46"
  by (simp add: ctor_defs eigen_defs)

subsection \<open>What the mutators leave alone\<close>

lemma update_fields:
  "get_A (update smax s) =
     (comma_row (scale3 (- (snd (get_box s) / 2)) (col (get_R s) 2)) (col (get_R s) 0),
      comma_row (scale3 (- (snd (get_box s) / 2)) (col (get_R s) 2)) (neg3 (col (get_R s) 0)),
      comma_row (scale3 (- (fst (get_box s) / 2)) (col (get_R s) 2)) (col (get_R s) 1),
      comma_row (scale3 (- (fst (get_box s) / 2)) (col (get_R s) 2)) (neg3 (col (get_R s) 1)))
   \<and> get_ub (update smax s) = (0, 0, 0, 0)
   \<and> get_lb (update smax s) = (- smax, - smax, - smax, - smax)"
  by (simp add: update_def Let_def eigen_defs)

lemma update_up_to_date: "up_to_date smax (update smax s)"
  by (simp add: up_to_date_def update_def Let_def)

lemma default_up_to_date: "up_to_date smax (CoPSupportTpl_default smax)"
  by (simp add: CoPSupportTpl_default_def update_up_to_date)

lemma default_fields:
  "get_R (CoPSupportTpl_default smax) = Identity
   \<and> get_box (CoPSupportTpl_default smax) = (smax, smax)
   \<and> get_A (CoPSupportTpl_default smax) =
       ((0, 0, - (smax / 2), 1, 0, 0),
        (0, 0, - (smax / 2), - 1, 0, 0),
        (0, 0, - (smax / 2), 0, 1, 0),
        (0, 0, - (smax / 2), 0, - 1, 0))
   \<and> get_ub (CoPSupportTpl_default smax) = (0, 0, 0, 0)
   \<and> get_lb (CoPSupportTpl_default smax) = (- smax, - smax, - smax, - smax)"
  by (simp add: ctor_defs eigen_defs)

lemma DBL_MAX_ge: "2 \<le> DBL_MAX"
  by (simp add: DBL_MAX_def)

lemma set_box_derived:
  "get_A (fst (set_box smax box s)) = get_A s \<and> get_ub (fst (set_box smax box s)) = get_ub s
   \<and> get_lb (fst (set_box smax box s)) = get_lb s"
  by (simp add: set_box_def Let_def split: prod.splits if_splits)

text \<open>The three branches of \<open>set_nsurf\<close>.\<close>

lemma set_nsurf_cases:
  "set_nsurf smin smax prec q2R n s =
     (if isUnitary prec n then Ok (s\<lparr>get_nsurf := n, get_R := q2R n UnitZ\<rparr>, [])
      else if norm3 n = 0 then NonFinite
      else if squaredNorm n < smin \<or> smax < squaredNorm n then OutOfRange
      else Ok (s\<lparr>get_nsurf := div3 n (norm3 n), get_R := q2R (div3 n (norm3 n)) UnitZ\<rparr>,
               [warn_normal]))"
  by (simp add: set_nsurf_def Let_def)

lemma set_nsurf_derived:
  "set_nsurf smin smax prec q2R n s = Ok (s', out) \<Longrightarrow>
     get_A s' = get_A s \<and> get_ub s' = get_ub s \<and> get_lb s' = get_lb s \<and> get_box s' = get_box s"
  unfolding set_nsurf_cases
  by (cases "isUnitary prec n"; cases "norm3 n = 0";
      cases "squaredNorm n < smin \<or> smax < squaredNorm n") auto

lemma set_nsurf_two:
  "set_nsurf DBL_MIN DBL_MAX DBL_dummy_precision q2R (0, 0, 2) s =
     Ok (s\<lparr>get_nsurf := (0, 0, 1), get_R := q2R (0, 0, 1) UnitZ\<rparr>, [warn_normal])"
  by (simp add: set_nsurf_def isUnitary_def squaredNorm_def norm3_def DBL_dummy_precision_def
      DBL_MIN_def DBL_MAX_def Let_def)

lemma quarter_turn_z_rotation: "proper_rotation quarter_turn_z"
  by (simp add: proper_rotation_def quarter_turn_z_def mat_mul3_def Identity_def)

lemma stale_after_set_R:
  "\<not> up_to_date DBL_MAX (set_R quarter_turn_z (CoPSupportTpl_default DBL_MAX))"
  by (simp add: up_to_date_def set_R_def ctor_defs eigen_defs quarter_turn_z_def)

lemma stale_after_set_box:
  "\<not> up_to_date DBL_MAX (fst (set_box DBL_MAX (0.2, 0.1) (CoPSupportTpl_default DBL_MAX)))"
  by (simp add: up_to_date_def set_box_def ctor_defs eigen_defs DBL_MAX_def)

text \<open>
  C1, as the code has it: \<open>set_R\<close>, \<open>set_box\<close> and \<open>set_nsurf\<close> leave the matrix and the two
  bounds as they were before the call; none of them runs \<open>update()\<close>. The derived fields
  are up to date once \<open>update()\<close> has run.
\<close>

theorem mutators_keep_derived_fields:
  "(get_A (set_R R s) = get_A s \<and> get_ub (set_R R s) = get_ub s \<and> get_lb (set_R R s) = get_lb s)
   \<and> (get_A (fst (set_box smax box s)) = get_A s \<and> get_ub (fst (set_box smax box s)) = get_ub s
       \<and> get_lb (fst (set_box smax box s)) = get_lb s)
   \<and> (\<forall>s' out. set_nsurf smin smax prec q2R n s = Ok (s', out) \<longrightarrow>
         get_A s' = get_A s \<and> get_ub s' = get_ub s \<and> get_lb s' = get_lb s)
   \<and> up_to_date smax (update smax t)"
proof -
  have a: "get_A (set_R R s) = get_A s \<and> get_ub (set_R R s) = get_ub s \<and> get_lb (set_R R s) = get_lb s"
    by (simp add: set_R_def)
  have c: "\<forall>s' out. set_nsurf smin smax prec q2R n s = Ok (s', out) \<longrightarrow>
         get_A s' = get_A s \<and> get_ub s' = get_ub s \<and> get_lb s' = get_lb s"
    using set_nsurf_derived by blast
  from a set_box_derived c update_up_to_date show ?thesis by blast
qed

text \<open>
  The theorem at the default descriptor and the normal \<open>(0, 0, 2)\<close>: \<open>set_nsurf\<close> returns a
  state, and its matrix and bounds are those of the default descriptor.
\<close>

theorem mutators_keep_derived_fields_witness:
  "set_nsurf DBL_MIN DBL_MAX DBL_dummy_precision q2R_parallel (0, 0, 2) (CoPSupportTpl_default DBL_MAX) =
     Ok ((CoPSupportTpl_default DBL_MAX)\<lparr>get_nsurf := (0, 0, 1), get_R := Identity\<rparr>, [warn_normal])
   \<and> get_A ((CoPSupportTpl_default DBL_MAX)\<lparr>get_nsurf := (0, 0, 1), get_R := Identity\<rparr>) =
       get_A (CoPSupportTpl_default DBL_MAX)
   \<and> get_ub ((CoPSupportTpl_default DBL_MAX)\<lparr>get_nsurf := (0, 0, 1), get_R := Identity\<rparr>) =
       get_ub (CoPSupportTpl_default DBL_MAX)
   \<and> get_lb ((CoPSupportTpl_default DBL_MAX)\<lparr>get_nsurf := (0, 0, 1), get_R := Identity\<rparr>) =
       get_lb (CoPSupportTpl_default DBL_MAX)"
proof -
  have run: "set_nsurf DBL_MIN DBL_MAX DBL_dummy_precision q2R_parallel (0, 0, 2) (CoPSupportTpl_default DBL_MAX) =
     Ok ((CoPSupportTpl_default DBL_MAX)\<lparr>get_nsurf := (0, 0, 1), get_R := Identity\<rparr>, [warn_normal])"
    by (simp add: set_nsurf_two q2R_parallel_def)
  from run mutators_keep_derived_fields [of quarter_turn_z "CoPSupportTpl_default DBL_MAX" DBL_MAX
      "(0.2, 0.1)" DBL_MIN DBL_dummy_precision q2R_parallel "(0, 0, 2)"
      "CoPSupportTpl_default DBL_MAX"]
  show ?thesis by blast
qed

text \<open>
  C1 as stated fails: the default descriptor is up to date; after \<open>set_R\<close> with a quarter
  turn about the third axis, and after \<open>set_box\<close> with \<open>(0.2, 0.1)\<close>, it is not.
\<close>

theorem stale_after_mutator:
  "up_to_date DBL_MAX (CoPSupportTpl_default DBL_MAX)
   \<and> proper_rotation quarter_turn_z
   \<and> \<not> up_to_date DBL_MAX (set_R quarter_turn_z (CoPSupportTpl_default DBL_MAX))
   \<and> \<not> up_to_date DBL_MAX (fst (set_box DBL_MAX (0.2, 0.1) (CoPSupportTpl_default DBL_MAX)))"
  using quarter_turn_z_rotation stale_after_set_R stale_after_set_box
    default_up_to_date [of DBL_MAX]
  by blast

subsection \<open>The orientation is not checked\<close>

lemma twice_identity_no_rotation:
  "\<not> proper_rotation twice_identity \<and> det3 twice_identity = 8"
  by (simp add: proper_rotation_def twice_identity_def)

text \<open>
  C5, as the code has it: \<open>set_R\<close> checks nothing. For every matrix it stores the matrix
  as the orientation and the product of its transpose with \<open>UnitZ\<close> as the normal, and it
  changes no other field.
\<close>

theorem set_R_stores_any_matrix:
  "set_R R s = s\<lparr>get_R := R, get_nsurf := mat_vec3 (transpose3 R) UnitZ\<rparr>
   \<and> get_R (set_R R s) = R
   \<and> get_nsurf (set_R R s) = mat_vec3 (transpose3 R) UnitZ
   \<and> get_box (set_R R s) = get_box s \<and> get_A (set_R R s) = get_A s
   \<and> get_ub (set_R R s) = get_ub s \<and> get_lb (set_R R s) = get_lb s"
  by (simp add: set_R_def)

text \<open>
  C5 as stated fails: the scaling by two has determinant \<open>8\<close>, and \<open>set_R\<close> stores it in
  the default descriptor, which is changed by the call.
\<close>

theorem set_R_accepts_scaling:
  "\<not> proper_rotation twice_identity \<and> det3 twice_identity = 8
   \<and> get_R (set_R twice_identity (CoPSupportTpl_default DBL_MAX)) = twice_identity
   \<and> set_R twice_identity (CoPSupportTpl_default DBL_MAX) \<noteq> CoPSupportTpl_default DBL_MAX"
proof -
  have stored: "get_R (set_R twice_identity (CoPSupportTpl_default DBL_MAX)) = twice_identity"
    by (simp add: set_R_def)
  have "twice_identity \<noteq> Identity"
    by (simp add: twice_identity_def Identity_def)
  with stored default_fields [of DBL_MAX]
  have "set_R twice_identity (CoPSupportTpl_default DBL_MAX) \<noteq> CoPSupportTpl_default DBL_MAX"
    by auto
  with stored twice_identity_no_rotation show ?thesis by blast
qed

subsection \<open>Inputs the constructors do not sanitise\<close>

text \<open>
  C3 at the box \<open>(-1, 2)\<close>: both constructors that take a box store \<open>(-1, 2)\<close>; \<open>set_box\<close>
  stores \<open>(max, 2)\<close> and prints one line.
\<close>

theorem constructors_keep_negative_box:
  "get_box (CoPSupportTpl_R smax Identity (- 1, 2)) = (- 1, 2)
   \<and> get_box (CoPSupportTpl_nsurf smax q2R UnitZ (- 1, 2)) = (- 1, 2)
   \<and> set_box smax (- 1, 2) s = (s\<lparr>get_box := (smax, 2)\<rparr>, [warn_box])"
  by (simp add: ctor_defs set_box_def)

text \<open>
  C4 at the normal \<open>(0, 0, 2)\<close>: the constructor stores \<open>(0, 0, 2)\<close> and computes the
  orientation from it; \<open>set_nsurf\<close> stores \<open>(0, 0, 1)\<close>, computes the orientation from
  that, and prints one line.
\<close>

theorem constructor_keeps_non_unit_normal:
  "get_nsurf (CoPSupportTpl_nsurf smax q2R (0, 0, 2) box) = (0, 0, 2)
   \<and> get_R (CoPSupportTpl_nsurf smax q2R (0, 0, 2) box) = q2R (0, 0, 2) UnitZ
   \<and> set_nsurf DBL_MIN DBL_MAX DBL_dummy_precision q2R (0, 0, 2) s =
       Ok (s\<lparr>get_nsurf := (0, 0, 1), get_R := q2R (0, 0, 1) UnitZ\<rparr>, [warn_normal])"
  using set_nsurf_two [of q2R s] by (simp add: ctor_defs)

subsection \<open>The unbounded box\<close>

lemma scaled_entry_bound:
  fixes r h :: real
  assumes "\<bar>r\<bar> \<le> 1" and "0 \<le> h"
  shows "\<bar>h * r\<bar> \<le> h"
proof -
  have "\<bar>h * r\<bar> = h * \<bar>r\<bar>" using assms(2) by (simp add: abs_mult)
  also have "\<dots> \<le> h * 1" using assms by (intro mult_left_mono) auto
  finally show ?thesis by simp
qed

lemma rows_entry_bound:
  assumes R: "list_all (\<lambda>r. \<bar>r\<bar> \<le> 1) (entries3 R)" and h: "1 \<le> h"
  shows "list_all (\<lambda>a. \<bar>a\<bar> \<le> h)
           (entries46
             (comma_row (scale3 (- h) (col R 2)) (col R 0),
              comma_row (scale3 (- h) (col R 2)) (neg3 (col R 0)),
              comma_row (scale3 (- h) (col R 2)) (col R 1),
              comma_row (scale3 (- h) (col R 2)) (neg3 (col R 1))))"
proof -
  obtain a0 a1 a2 b0 b1 b2 c0 c1 c2 where Rdef: "R = ((a0, a1, a2), (b0, b1, b2), (c0, c1, c2))"
    by (metis prod_cases3)
  have h0: "0 \<le> h" using h by simp
  have s: "\<And>r. \<bar>r\<bar> \<le> 1 \<Longrightarrow> \<bar>h * r\<bar> \<le> h"
    using scaled_entry_bound h0 by blast
  have u: "\<And>r. \<bar>r\<bar> \<le> 1 \<Longrightarrow> \<bar>r\<bar> \<le> h"
    using h by linarith
  from R show ?thesis
    unfolding Rdef by (simp add: s u)
qed

text \<open>Every proper rotation meets the bound on the entries.\<close>

lemma unit_column_entry:
  fixes x y z :: real
  assumes "x * x + y * y + z * z = 1"
  shows "\<bar>x\<bar> \<le> 1"
proof -
  have "0 \<le> y * y" "0 \<le> z * z" by simp_all
  with assms have "x * x \<le> 1" by linarith
  then have "x\<^sup>2 \<le> 1\<^sup>2" by (simp add: power2_eq_square)
  then show ?thesis using abs_le_square_iff [of x 1] by simp
qed

lemma rotation_entries_bounded:
  assumes "proper_rotation R"
  shows "list_all (\<lambda>r. \<bar>r\<bar> \<le> 1) (entries3 R)"
proof -
  obtain a0 a1 a2 b0 b1 b2 c0 c1 c2 where Rdef: "R = ((a0, a1, a2), (b0, b1, b2), (c0, c1, c2))"
    by (metis prod_cases3)
  from assms have c0: "a0 * a0 + b0 * b0 + c0 * c0 = 1"
    and c1: "a1 * a1 + b1 * b1 + c1 * c1 = 1"
    and c2: "a2 * a2 + b2 * b2 + c2 * c2 = 1"
    unfolding Rdef by (simp_all add: proper_rotation_def mat_mul3_def Identity_def)
  from c0 have 0: "\<bar>a0\<bar> \<le> 1" "\<bar>b0\<bar> \<le> 1" "\<bar>c0\<bar> \<le> 1"
    using unit_column_entry [of a0 b0 c0] unit_column_entry [of b0 a0 c0]
      unit_column_entry [of c0 a0 b0] by (simp_all add: algebra_simps)
  from c1 have 1: "\<bar>a1\<bar> \<le> 1" "\<bar>b1\<bar> \<le> 1" "\<bar>c1\<bar> \<le> 1"
    using unit_column_entry [of a1 b1 c1] unit_column_entry [of b1 a1 c1]
      unit_column_entry [of c1 a1 b1] by (simp_all add: algebra_simps)
  from c2 have 2: "\<bar>a2\<bar> \<le> 1" "\<bar>b2\<bar> \<le> 1" "\<bar>c2\<bar> \<le> 1"
    using unit_column_entry [of a2 b2 c2] unit_column_entry [of b2 a2 c2]
      unit_column_entry [of c2 a2 b2] by (simp_all add: algebra_simps)
  from 0 1 2 show ?thesis unfolding Rdef by simp
qed

text \<open>
  The four upper bounds say that the two in-plane moments are bounded by the half
  extents times the force along the third column.
\<close>

lemma below_upper_update:
  "below_upper (update smax s) (comma_row f m) \<longleftrightarrow>
     \<bar>dot3 (col (get_R s) 0) m\<bar> \<le> snd (get_box s) / 2 * dot3 (col (get_R s) 2) f
     \<and> \<bar>dot3 (col (get_R s) 1) m\<bar> \<le> fst (get_box s) / 2 * dot3 (col (get_R s) 2) f"
proof -
  obtain a0 a1 a2 b0 b1 b2 c0 c1 c2 where Rdef: "get_R s = ((a0, a1, a2), (b0, b1, b2), (c0, c1, c2))"
    by (metis prod_cases3)
  obtain f0 f1 f2 where fdef: "f = (f0, f1, f2)" by (metis prod_cases3)
  obtain m0 m1 m2 where mdef: "m = (m0, m1, m2)" by (metis prod_cases3)
  show ?thesis
    unfolding below_upper_def update_fields [THEN conjunct1]
      update_fields [THEN conjunct2, THEN conjunct1] Rdef fdef mdef
    by (simp add: algebra_simps abs_le_iff) argo
qed

text \<open>
  C2, as the code has it: with the box \<open>(max, max)\<close>, \<open>update()\<close> writes \<open>-max/2\<close> times
  the third column of \<open>R\<close> into the force block of every row and the first and second
  columns, with both signs, into the moment block; the upper bounds are \<open>0\<close> and the
  lower bounds \<open>-max\<close>. When no entry of \<open>R\<close> exceeds \<open>1\<close> in magnitude and \<open>max\<close> is at least
  \<open>2\<close>, no entry of the matrix exceeds \<open>max/2\<close> in magnitude. A wrench with force \<open>f\<close> and
  moment \<open>m\<close> meets the four upper bounds exactly when the moments along the first two
  columns are bounded by \<open>max/2\<close> times the force along the third.
\<close>

theorem unbounded_box_rows:
  assumes box: "get_box s = (smax, smax)"
    and R: "list_all (\<lambda>r. \<bar>r\<bar> \<le> 1) (entries3 (get_R s))"
    and big: "2 \<le> smax"
  shows "get_A (update smax s) =
           (comma_row (scale3 (- (smax / 2)) (col (get_R s) 2)) (col (get_R s) 0),
            comma_row (scale3 (- (smax / 2)) (col (get_R s) 2)) (neg3 (col (get_R s) 0)),
            comma_row (scale3 (- (smax / 2)) (col (get_R s) 2)) (col (get_R s) 1),
            comma_row (scale3 (- (smax / 2)) (col (get_R s) 2)) (neg3 (col (get_R s) 1)))
         \<and> get_ub (update smax s) = (0, 0, 0, 0)
         \<and> get_lb (update smax s) = (- smax, - smax, - smax, - smax)
         \<and> list_all (\<lambda>a. \<bar>a\<bar> \<le> smax / 2) (entries46 (get_A (update smax s)))
         \<and> (below_upper (update smax s) (comma_row f m) \<longleftrightarrow>
               \<bar>dot3 (col (get_R s) 0) m\<bar> \<le> smax / 2 * dot3 (col (get_R s) 2) f
               \<and> \<bar>dot3 (col (get_R s) 1) m\<bar> \<le> smax / 2 * dot3 (col (get_R s) 2) f)"
proof -
  have A: "get_A (update smax s) =
           (comma_row (scale3 (- (smax / 2)) (col (get_R s) 2)) (col (get_R s) 0),
            comma_row (scale3 (- (smax / 2)) (col (get_R s) 2)) (neg3 (col (get_R s) 0)),
            comma_row (scale3 (- (smax / 2)) (col (get_R s) 2)) (col (get_R s) 1),
            comma_row (scale3 (- (smax / 2)) (col (get_R s) 2)) (neg3 (col (get_R s) 1)))"
    using update_fields [of smax s] by (simp add: box)
  have half: "1 \<le> smax / 2" using big by simp
  have bound: "list_all (\<lambda>a. \<bar>a\<bar> \<le> smax / 2) (entries46 (get_A (update smax s)))"
    unfolding A by (rule rows_entry_bound [OF R half])
  have rows: "below_upper (update smax s) (comma_row f m) \<longleftrightarrow>
               \<bar>dot3 (col (get_R s) 0) m\<bar> \<le> smax / 2 * dot3 (col (get_R s) 2) f
               \<and> \<bar>dot3 (col (get_R s) 1) m\<bar> \<le> smax / 2 * dot3 (col (get_R s) 2) f"
    using below_upper_update [of smax s f m] by (simp add: box)
  from A bound rows update_fields [of smax s] show ?thesis by blast
qed

text \<open>
  The theorem at the default descriptor: its hypotheses hold there, no entry exceeds
  \<open>max/2\<close>, the wrench with unit normal force and unit moments about the first two axes
  meets the upper bounds, and the pure moment about the first axis does not.
\<close>

theorem unbounded_box_rows_witness:
  "get_box (CoPSupportTpl_default DBL_MAX) = (DBL_MAX, DBL_MAX)
   \<and> list_all (\<lambda>r. \<bar>r\<bar> \<le> 1) (entries3 (get_R (CoPSupportTpl_default DBL_MAX)))
   \<and> 2 \<le> DBL_MAX
   \<and> list_all (\<lambda>a. \<bar>a\<bar> \<le> DBL_MAX / 2)
        (entries46 (get_A (update DBL_MAX (CoPSupportTpl_default DBL_MAX))))
   \<and> below_upper (update DBL_MAX (CoPSupportTpl_default DBL_MAX)) (0, 0, 1, 1, 1, 0)
   \<and> \<not> below_upper (update DBL_MAX (CoPSupportTpl_default DBL_MAX)) (0, 0, 0, 1, 0, 0)"
proof -
  have box: "get_box (CoPSupportTpl_default DBL_MAX) = (DBL_MAX, DBL_MAX)"
    by (simp add: default_fields)
  have R: "list_all (\<lambda>r. \<bar>r\<bar> \<le> 1) (entries3 (get_R (CoPSupportTpl_default DBL_MAX)))"
    by (simp add: default_fields Identity_def)
  note t = unbounded_box_rows [OF box R DBL_MAX_ge]
  have b1: "below_upper (update DBL_MAX (CoPSupportTpl_default DBL_MAX)) (0, 0, 1, 1, 1, 0)"
    using t [of "(0, 0, 1)" "(1, 1, 0)"] DBL_MAX_ge by (simp add: default_fields Identity_def)
  have b2: "\<not> below_upper (update DBL_MAX (CoPSupportTpl_default DBL_MAX)) (0, 0, 0, 1, 0, 0)"
    using t [of "(0, 0, 0)" "(1, 0, 0)"] by (simp add: default_fields Identity_def)
  from box R DBL_MAX_ge t [of "(0, 0, 0)" "(0, 0, 0)"] b1 b2 show ?thesis by blast
qed

text \<open>
  C2 as stated fails: the default descriptor has the box \<open>(max, max)\<close> and a proper
  rotation, and neither the pure moment \<open>(0,0,0, 1,0,0)\<close> nor the pulling force
  \<open>(0,0,-1, 0,0,0)\<close> is within its bounds.
\<close>

theorem unbounded_box_rejects_wrench:
  "get_box (CoPSupportTpl_default DBL_MAX) = (DBL_MAX, DBL_MAX)
   \<and> proper_rotation (get_R (CoPSupportTpl_default DBL_MAX))
   \<and> \<not> within_bounds (CoPSupportTpl_default DBL_MAX) (0, 0, 0, 1, 0, 0)
   \<and> \<not> within_bounds (CoPSupportTpl_default DBL_MAX) (0, 0, - 1, 0, 0, 0)"
proof -
  have rot: "proper_rotation Identity"
    by (simp add: proper_rotation_def mat_mul3_def Identity_def)
  have pos: "0 < DBL_MAX" using DBL_MAX_ge by linarith
  have w1: "\<not> within_bounds (CoPSupportTpl_default DBL_MAX) (0, 0, 0, 1, 0, 0)"
    by (simp add: within_bounds_def below_upper_def default_fields)
  have w2: "\<not> within_bounds (CoPSupportTpl_default DBL_MAX) (0, 0, - 1, 0, 0, 0)"
    using pos by (simp add: within_bounds_def below_upper_def default_fields)
  from rot w1 w2 show ?thesis by (simp add: default_fields)
qed

subsection \<open>Norms and rotations\<close>
































subsection \<open>The normal and the orientation\<close>




subsection \<open>Normalisation in \<open>set_nsurf\<close>\<close>



















end
